theory Spec2Isabelle
  imports Complex_Main "HOL-Library.Monad_Syntax"
begin

section \<open>Payment calculator (calculadora\_pagamento033.py)\<close>

text \<open>
  A shallow embedding of the calculation engine of the payment calculator: the
  helper functions \<open>count_uteis\<close>, \<open>calc_inss\<close>, \<open>calc_irrf\<close>, \<open>val_hora\<close>,
  \<open>calc_h_extra\<close> and the method \<open>Calculadora.calcular\<close>.

  Conventions of the model.
  \<^item> Python's \<open>float\<close> is modelled by \<^typ>\<open>real\<close>: arithmetic is exact, there is no
    rounding, no infinity and no NaN. The one infinite table entry
    (\<open>float("inf")\<close>, the last threshold of the income-tax table) is the value
    \<open>None\<close> of an optional threshold.
  \<^item> Python's \<open>int\<close> is modelled by \<^typ>\<open>int\<close>.
  \<^item> The Tk variables read by \<open>calcular\<close> are the fields of the record \<open>form\<close>; the
    two modal dialogues are arguments of \<open>calcular\<close> holding the user's answer.
  \<^item> Every \<open>return\<close> without a result, every error dialogue and every caught
    exception is a constructor of the result type \<open>resultado\<close>.
\<close>

subsection \<open>Calendar (the parts of \<open>calendar\<close> and \<open>datetime\<close> the program uses)\<close>

definition isleap :: "int \<Rightarrow> bool" where
  "isleap y = (y mod 4 = 0 \<and> (y mod 100 \<noteq> 0 \<or> y mod 400 = 0))"

definition mdays :: "int list" where
  "mdays = [0, 31, 28, 31, 30, 31, 30, 31, 31, 30, 31, 30, 31]"

text \<open>
  \<open>monthrange(y, m)[1]\<close>: the number of days of the month; a month outside 1..12
  raises \<open>IllegalMonthError\<close> (here \<open>None\<close>). The year is not restricted.
\<close>

definition monthrange_dias :: "int \<Rightarrow> int \<Rightarrow> int option" where
  "monthrange_dias y m =
     (if \<not> (1 \<le> m \<and> m \<le> 12) then None
      else Some (mdays ! nat m + (if m = 2 \<and> isleap y then 1 else 0)))"

definition days_before_year :: "int \<Rightarrow> int" where
  "days_before_year year = (let y = year - 1 in y * 365 + y div 4 - y div 100 + y div 400)"

definition days_before_month :: "int \<Rightarrow> int \<Rightarrow> int" where
  "days_before_month year month =
     sum_list (take (nat month) mdays) + (if month > 2 \<and> isleap year then 1 else 0)"

text \<open>
  \<open>date(y, m, d).toordinal()\<close>; the constructor raises \<open>ValueError\<close> (here \<open>None\<close>)
  for a year outside 1..9999, a month outside 1..12 or a day outside the month.
\<close>

definition date_ordinal :: "int \<Rightarrow> int \<Rightarrow> int \<Rightarrow> int option" where
  "date_ordinal y m d =
     (if \<not> (1 \<le> y \<and> y \<le> 9999) then None
      else case monthrange_dias y m of
        None \<Rightarrow> None
      | Some ndays \<Rightarrow>
          if \<not> (1 \<le> d \<and> d \<le> ndays) then None
          else Some (days_before_year y + days_before_month y m + d))"

text \<open>\<open>date.weekday()\<close> of the day with the given ordinal: Monday is 0, Sunday is 6.\<close>

definition weekday_of :: "int \<Rightarrow> int" where
  "weekday_of ordinal = (ordinal + 6) mod 7"

subsection \<open>Helper functions\<close>

text \<open>
  The \<open>while current <= end_date\<close> loop of \<open>count_uteis\<close>, on ordinals: adding
  \<open>timedelta(days=1)\<close> to a date adds one to its ordinal.
\<close>

function count_uteis_loop :: "int \<Rightarrow> int \<Rightarrow> int \<Rightarrow> int" where
  "count_uteis_loop current end_date count =
     (if current \<le> end_date
      then count_uteis_loop (current + 1) end_date
             (if weekday_of current < 5 then count + 1 else count)
      else count)"
  by pat_completeness auto
termination
  by (relation "measure (\<lambda>(current, end_date, count). nat (end_date + 1 - current))") auto

declare count_uteis_loop.simps [simp del]

definition count_uteis :: "int \<Rightarrow> int \<Rightarrow> int \<Rightarrow> int option" where
  "count_uteis y m start =
     (case date_ordinal y m start of
        None \<Rightarrow> None
      | Some start_date \<Rightarrow>
          (case monthrange_dias y m of
             None \<Rightarrow> None
           | Some end_day \<Rightarrow>
               (case date_ordinal y m end_day of
                  None \<Rightarrow> None
                | Some end_date \<Rightarrow> Some (count_uteis_loop start_date end_date 0))))"

text \<open>The rows of a bracket table: (threshold, rate, deduction).\<close>

definition INSS_FAIXAS :: "(real \<times> real \<times> real) list" where
  "INSS_FAIXAS =
     [(1518.00, 0.075, 0.00),
      (2793.88, 0.09, 22.77),
      (4190.83, 0.12, 106.59),
      (8157.41, 0.14, 190.40)]"

definition INSS_TETO :: real where
  "INSS_TETO = 8157.41"

text \<open>The \<open>for\<close> loop of \<open>calc_inss\<close>; \<open>None\<close> when the loop ends without returning.\<close>

fun inss_scan :: "(real \<times> real \<times> real) list \<Rightarrow> real \<Rightarrow> real option" where
  "inss_scan [] sal = None"
| "inss_scan ((faixa, pct, ded) # rest) sal =
     (if sal > faixa then Some (sal * pct - ded) else inss_scan rest sal)"

definition calc_inss :: "real \<Rightarrow> real" where
  "calc_inss sal0 =
     (let sal = min sal0 INSS_TETO
      in case inss_scan (rev INSS_FAIXAS) sal of
           Some v \<Rightarrow> v
         | None \<Rightarrow> sal * fst (snd (INSS_FAIXAS ! 0)))"

definition IRRF_TABELA :: "(real option \<times> real \<times> real) list" where
  "IRRF_TABELA =
     [(Some 2428.80, 0.00, 0.00),
      (Some 2826.65, 0.075, 182.16),
      (Some 3751.05, 0.15, 394.16),
      (Some 4664.68, 0.225, 675.49),
      (None, 0.275, 908.73)]"

text \<open>\<open>base <= faixa\<close>, where the threshold \<open>None\<close> is \<open>float("inf")\<close>.\<close>

definition le_faixa :: "real \<Rightarrow> real option \<Rightarrow> bool" where
  "le_faixa base faixa = (case faixa of None \<Rightarrow> True | Some t \<Rightarrow> base \<le> t)"

text \<open>The value one row of the income-tax table returns: \<open>max(0, base * pct - ded)\<close>.\<close>

definition irrf_faixa :: "real option \<times> real \<times> real \<Rightarrow> real \<Rightarrow> real" where
  "irrf_faixa row base = (case row of (faixa, pct, ded) \<Rightarrow> max 0 (base * pct - ded))"

fun irrf_scan :: "(real option \<times> real \<times> real) list \<Rightarrow> real \<Rightarrow> real" where
  "irrf_scan [] base = 0"
| "irrf_scan (row # rest) base =
     (if le_faixa base (fst row) then irrf_faixa row base else irrf_scan rest base)"

definition calc_irrf :: "real \<Rightarrow> real" where
  "calc_irrf base = irrf_scan IRRF_TABELA base"

definition val_hora :: "real \<Rightarrow> real" where
  "val_hora d = (if d \<noteq> 0 then d / 8 else 0)"

definition calc_h_extra :: "real \<Rightarrow> real \<Rightarrow> real \<Rightarrow> real" where
  "calc_h_extra vh h pct = vh * h * (1 + pct / 100)"

subsection \<open>The form and the pay slip\<close>

datatype contrato = CLT | PJ | MEI

text \<open>\<open>tipo_valor\<close> is \<open>'diario'\<close> or \<open>'total'\<close>; \<open>tipo_calculo\<close> is \<open>'mes'\<close> or \<open>'data'\<close>;
  \<open>tipo_pensao\<close> is \<open>'percent'\<close> or \<open>'fix'\<close> (the values of the radio buttons).\<close>

datatype tipo_valor_t = Diario | Total

datatype tipo_calculo_t = Mes | Data

datatype tipo_pensao_t = Percent | Fix

text \<open>
  The content of a numeric entry, as the conversion the program applies to it sees
  it: \<open>Vazio\<close> is the empty string, \<open>Numero x\<close> a string that \<open>float\<close> reads as \<open>x\<close>,
  \<open>Invalido\<close> a non-empty string on which \<open>float\<close> raises \<open>ValueError\<close>.
\<close>

datatype campo = Vazio | Numero real | Invalido

text \<open>
  The month entry is given by what \<open>int(self.mes.get())\<close> makes of it (\<open>None\<close>: it
  raises \<open>ValueError\<close>); the year entry is the string itself, since the program
  inspects it. Check boxes are booleans.
\<close>

record form =
  tipo_contrato :: contrato
  tipo_valor :: tipo_valor_t
  tipo_calculo :: tipo_calculo_t
  valor :: campo
  mes :: "int option"
  ano :: string
  horas :: campo
  percentual :: campo
  paga_pensao :: bool
  tipo_pensao :: tipo_pensao_t
  valor_pensao :: campo
  vr_fixo :: bool
  valor_vr_fixo :: campo
  valor_vr :: campo
  va_fixo :: bool
  valor_va_fixo :: campo
  valor_va :: campo
  vt_fixo :: bool
  valor_vt_fixo :: campo
  vt_percentual :: campo
  atraso_horas :: campo
  atraso_minutos :: campo
  faltas :: campo

text \<open>
  The labels of the pay slip's lines, in the order of the source: Salario Bruto,
  Salario Base, Horas Extras, INSS, IRRF, Pensao Alimenticia, Vale Transporte,
  Vale Refeicao, Vale Alimentacao, Atraso, Faltas, Faturamento, IRPJ (15%),
  CSLL (9%), PIS/COFINS (6,5%), ISS (3,5%), DAS (mensal).
\<close>

datatype rotulo =
    SalarioBruto | SalarioBase | HorasExtras
  | INSS | IRRF | PensaoAlimenticia | ValeTransporte | ValeRefeicao | ValeAlimentacao
  | Atraso | Faltas
  | Faturamento | IRPJ | CSLL | PIS_COFINS | ISS | DAS

text \<open>The arguments of \<open>mostrar_popup\<close>.\<close>

record holerite =
  recebimentos :: "(rotulo \<times> real) list"
  descontos :: "(rotulo \<times> real) list"
  total_recebimento :: real
  total_desconto :: real
  liquido :: real

text \<open>
  How \<open>calcular\<close> ends: \<open>AnoInvalido\<close> and \<open>PercentualHorasExtras\<close> are its two
  explicit error dialogues (each followed by \<open>return\<close>), \<open>Excecao\<close> is an exception
  caught by its \<open>except Exception\<close> handler, which shows an error dialogue too.
  \<open>Cancelado\<close> is a \<open>return\<close> after a cancelled dialogue: nothing is shown.
  \<open>Holerite p\<close> is the call \<open>mostrar_popup\<close> with the pay slip \<open>p\<close>.
\<close>

datatype erro = AnoInvalido | PercentualHorasExtras | Excecao

datatype resultado = Holerite holerite | Cancelado | Erro erro

subsection \<open>Reading the entries\<close>

text \<open>\<open>float(s.replace(',', '.'))\<close>; \<open>None\<close> when it raises.\<close>

definition float_campo :: "campo \<Rightarrow> real option" where
  "float_campo c = (case c of Numero x \<Rightarrow> Some x | Vazio \<Rightarrow> None | Invalido \<Rightarrow> None)"

text \<open>\<open>float(s.replace(',', '.') if s else d)\<close>; \<open>None\<close> when it raises.\<close>

definition float_campo_ou :: "campo \<Rightarrow> real \<Rightarrow> real option" where
  "float_campo_ou c d = (case c of Vazio \<Rightarrow> Some d | Numero x \<Rightarrow> Some x | Invalido \<Rightarrow> None)"

text \<open>\<open>try: v = float(s.replace(',', '.'))\<close> \<open>except: v = 0\<close>.\<close>

definition float_campo_try :: "campo \<Rightarrow> real" where
  "float_campo_try c = (case float_campo c of Some x \<Rightarrow> x | None \<Rightarrow> 0)"

text \<open>\<open>str.isdigit\<close> and \<open>int\<close> on a string of ASCII characters.\<close>

definition str_isdigit :: "string \<Rightarrow> bool" where
  "str_isdigit s = (s \<noteq> [] \<and> list_all (\<lambda>c. c \<in> set ''0123456789'') s)"

definition int_of_str :: "string \<Rightarrow> int" where
  "int_of_str s = foldl (\<lambda>acc c. 10 * acc + (int (of_char c) - 48)) 0 s"

text \<open>Python's \<open>/\<close> on floats: division by zero raises \<open>ZeroDivisionError\<close>.\<close>

definition py_div :: "real \<Rightarrow> real \<Rightarrow> real option" where
  "py_div a b = (if b = 0 then None else Some (a / b))"

subsection \<open>\<open>Calculadora.calcular\<close>\<close>

text \<open>
  The block "Ajuste de salario base": the pair \<open>(salario, dias_calc)\<close>. \<open>dia_ini\<close> is
  the answer of the dialogue \<open>askinteger\<close>, which is opened only for a daily value
  from a specific date; \<open>None\<close> (the dialogue was cancelled) makes \<open>calcular\<close> return.
\<close>

definition salario_base ::
  "tipo_valor_t \<Rightarrow> tipo_calculo_t \<Rightarrow> real \<Rightarrow> int \<Rightarrow> int option \<Rightarrow> (real \<times> int) option" where
  "salario_base tv tc valor_num dias dia_ini =
     (if tv = Diario then
        (if tc = Mes then Some (valor_num * real_of_int dias, dias)
         else (case dia_ini of
                 None \<Rightarrow> None
               | Some d \<Rightarrow>
                   (let dias_calc = dias - d + 1
                    in Some (valor_num * real_of_int dias_calc, dias_calc))))
      else Some (valor_num, dias))"

text \<open>The block "Ajuste de pensao".\<close>

definition calc_pensao :: "form \<Rightarrow> real \<Rightarrow> real" where
  "calc_pensao f salario =
     (if paga_pensao f then
        (if tipo_pensao f = Percent
         then (let perc = float_campo_try (valor_pensao f) in salario * perc / 100)
         else float_campo_try (valor_pensao f))
      else 0)"

text \<open>The transport voucher; \<open>None\<close> when the percentage cannot be read.\<close>

definition calc_vt :: "form \<Rightarrow> real \<Rightarrow> real option" where
  "calc_vt f salario_bruto =
     (if vt_fixo f then Some (float_campo_try (valor_vt_fixo f))
      else (case float_campo_ou (vt_percentual f) 6 of
              None \<Rightarrow> None
            | Some vt_pct0 \<Rightarrow>
                (let vt_pct = (if vt_pct0 > 6 then 6 else vt_pct0)
                 in Some (salario_bruto * vt_pct / 100))))"

text \<open>The meal and the food voucher have the same shape, on their own entries.\<close>

definition calc_vale :: "bool \<Rightarrow> campo \<Rightarrow> campo \<Rightarrow> int \<Rightarrow> real option" where
  "calc_vale fixo valor_fixo valor_diario uteis =
     (if fixo then Some (float_campo_try valor_fixo)
      else (case float_campo_ou valor_diario 0 of
              None \<Rightarrow> None
            | Some v \<Rightarrow> Some (v * real_of_int uteis * 0.2)))"

text \<open>\<open>if v > 0: xs.append((label, v))\<close>.\<close>

definition se_positivo :: "rotulo \<Rightarrow> real \<Rightarrow> (rotulo \<times> real) list" where
  "se_positivo r v = (if v > 0 then [(r, v)] else [])"

text \<open>
  The branch for the contract CLT, in the order of the source. \<open>valor_num\<close>,
  \<open>mes_num\<close> and \<open>ano_num\<close> are the local variables \<open>valor\<close>, \<open>mes\<close> and \<open>ano\<close>.

  First the overtime: the hours and the percentage are read, hours without a
  percentage are refused with an error dialogue, and the value of an hour
  \<open>v_h\<close> and the value of the overtime \<open>val_h_extras\<close> are computed.
\<close>

definition clt_horas_extras :: "form \<Rightarrow> real \<Rightarrow> real \<Rightarrow> int \<Rightarrow> erro + real \<times> real" where
  "clt_horas_extras f valor_num salario dias_calc =
     (case float_campo_ou (horas f) 0 of
        None \<Rightarrow> Inl Excecao
      | Some h_extras \<Rightarrow>
          (case float_campo_ou (percentual f) 0 of
             None \<Rightarrow> Inl Excecao
           | Some perc_extra \<Rightarrow>
               (if h_extras > 0 \<and> perc_extra = 0 then Inl PercentualHorasExtras
                else
                  (case (if tipo_valor f = Diario then Some valor_num
                         else py_div salario (real_of_int dias_calc)) of
                     None \<Rightarrow> Inl Excecao
                   | Some base_hora \<Rightarrow>
                       (let v_h = val_hora base_hora;
                            val_h_extras =
                              (if h_extras > 0 then calc_h_extra v_h h_extras perc_extra
                               else 0)
                        in Inr (v_h, val_h_extras))))))"

text \<open>The block "Descontos atraso e faltas": the pair \<open>(valor_atraso, valor_falta)\<close>.\<close>

definition clt_atraso_faltas ::
  "form \<Rightarrow> real \<Rightarrow> real \<Rightarrow> int \<Rightarrow> real \<Rightarrow> (real \<times> real) option" where
  "clt_atraso_faltas f valor_num salario dias v_h =
     do {
       atraso_h \<leftarrow> float_campo_ou (atraso_horas f) 0;
       atraso_m \<leftarrow> float_campo_ou (atraso_minutos f) 0;
       let valor_atraso = v_h * (atraso_h + atraso_m / 60);
       n_faltas \<leftarrow> float_campo_ou (faltas f) 0;
       valor_falta \<leftarrow>
         (if tipo_valor f = Diario then Some (valor_num * n_faltas)
          else do {
            valor_dia_mensal \<leftarrow> py_div salario (real_of_int dias);
            Some (valor_dia_mensal * n_faltas)
          });
       Some (valor_atraso, valor_falta)
     }"

text \<open>
  The three vouchers: the triple \<open>(vt, desc_vr, desc_va)\<close>. The business days are
  counted by \<open>count_uteis(ano, mes)\<close>, with the default first day 1.
\<close>

definition clt_vales :: "form \<Rightarrow> int \<Rightarrow> int \<Rightarrow> real \<Rightarrow> (real \<times> real \<times> real) option" where
  "clt_vales f ano_num mes_num salario_bruto =
     do {
       vt \<leftarrow> calc_vt f salario_bruto;
       uteis \<leftarrow> count_uteis ano_num mes_num 1;
       desc_vr \<leftarrow> calc_vale (vr_fixo f) (valor_vr_fixo f) (valor_vr f) uteis;
       desc_va \<leftarrow> calc_vale (va_fixo f) (valor_va_fixo f) (valor_va f) uteis;
       Some (vt, desc_vr, desc_va)
     }"

text \<open>The taxes, the two lists and the totals.\<close>

definition clt_holerite ::
  "real \<Rightarrow> real \<Rightarrow> real \<Rightarrow> real \<Rightarrow> real \<Rightarrow> real \<Rightarrow> real \<Rightarrow> real \<Rightarrow> holerite" where
  "clt_holerite salario val_h_extras pensao vt desc_vr desc_va valor_atraso valor_falta =
     (let salario_bruto = salario + val_h_extras;
          inss = calc_inss salario_bruto;
          base_irrf = salario_bruto - inss;
          irrf = calc_irrf base_irrf;
          total_descontos =
            inss + irrf + pensao + vt + desc_vr + desc_va + valor_atraso + valor_falta;
          total_recebimentos = salario_bruto
      in \<lparr>recebimentos =
            [(SalarioBruto, salario_bruto), (SalarioBase, salario)]
            @ se_positivo HorasExtras val_h_extras,
          descontos =
            [(INSS, inss), (IRRF, irrf)]
            @ se_positivo PensaoAlimenticia pensao
            @ [(ValeTransporte, vt)]
            @ se_positivo ValeRefeicao desc_vr
            @ se_positivo ValeAlimentacao desc_va
            @ se_positivo Atraso valor_atraso
            @ se_positivo Faltas valor_falta,
          total_recebimento = total_recebimentos,
          total_desconto = total_descontos,
          liquido = total_recebimentos - total_descontos\<rparr>)"

text \<open>
  A statement inside the \<open>try\<close> block of \<open>calcular\<close> that may raise: \<open>None\<close> is the
  exception, which ends the calculation in the handler; otherwise the
  calculation goes on with the value.
\<close>

definition tenta :: "'a option \<Rightarrow> ('a \<Rightarrow> resultado) \<Rightarrow> resultado" where
  "tenta x k = (case x of None \<Rightarrow> Erro Excecao | Some v \<Rightarrow> k v)"

definition calcular_clt ::
  "form \<Rightarrow> int \<Rightarrow> int \<Rightarrow> real \<Rightarrow> int \<Rightarrow> real \<Rightarrow> int \<Rightarrow> real \<Rightarrow> resultado" where
  "calcular_clt f ano_num mes_num valor_num dias salario dias_calc pensao =
     (case clt_horas_extras f valor_num salario dias_calc of
        Inl e \<Rightarrow> Erro e
      | Inr (v_h, val_h_extras) \<Rightarrow>
          tenta (clt_atraso_faltas f valor_num salario dias v_h) (\<lambda>(valor_atraso, valor_falta).
          tenta (clt_vales f ano_num mes_num (salario + val_h_extras)) (\<lambda>(vt, desc_vr, desc_va).
          Holerite (clt_holerite salario val_h_extras pensao vt desc_vr desc_va
                      valor_atraso valor_falta))))"

text \<open>The branch for the contract PJ.\<close>

definition calcular_pj :: "real \<Rightarrow> real \<Rightarrow> resultado" where
  "calcular_pj salario pensao =
     (let irpj = salario * 0.15;
          csll = salario * 0.09;
          pis_cofins = salario * 0.065;
          iss = salario * 0.035;
          total_descontos = irpj + csll + pis_cofins + iss + pensao;
          total_recebimentos = salario
      in Holerite
           \<lparr>recebimentos = [(Faturamento, salario)],
            descontos =
              [(IRPJ, irpj), (CSLL, csll), (PIS_COFINS, pis_cofins), (ISS, iss)]
              @ se_positivo PensaoAlimenticia pensao,
            total_recebimento = total_recebimentos,
            total_desconto = total_descontos,
            liquido = total_recebimentos - total_descontos\<rparr>)"

text \<open>
  The branch for the contract MEI. \<open>tipo_ativ\<close> is the result of the dialogue
  \<open>MEIPopup\<close>: \<open>None\<close> when it was cancelled, otherwise the value of the selected radio
  button (1 commerce or industry, 2 services, 3 both).
\<close>

definition MEI_INSS :: real where "MEI_INSS = 75.90"

definition MEI_ICMS :: real where "MEI_ICMS = 1.00"

definition MEI_ISS :: real where "MEI_ISS = 5.00"

definition calcular_mei :: "real \<Rightarrow> real \<Rightarrow> int option \<Rightarrow> resultado" where
  "calcular_mei salario pensao tipo_ativ =
     (case tipo_ativ of
        None \<Rightarrow> Cancelado
      | Some t \<Rightarrow>
          (let das = (if t = 1 then MEI_INSS + MEI_ICMS
                      else if t = 2 then MEI_INSS + MEI_ISS
                      else MEI_INSS + MEI_ICMS + MEI_ISS);
               total_descontos = das + pensao;
               total_recebimentos = salario
           in Holerite
                \<lparr>recebimentos = [(Faturamento, salario)],
                 descontos = [(DAS, das)] @ se_positivo PensaoAlimenticia pensao,
                 total_recebimento = total_recebimentos,
                 total_desconto = total_descontos,
                 liquido = total_recebimentos - total_descontos\<rparr>))"

text \<open>
  \<open>calcular\<close>, with the answers of the two dialogues as arguments: \<open>dia_ini\<close> for
  \<open>askinteger\<close> (the first day) and \<open>tipo_ativ\<close> for \<open>MEIPopup\<close>.
\<close>

definition calcular :: "form \<Rightarrow> int option \<Rightarrow> int option \<Rightarrow> resultado" where
  "calcular f dia_ini tipo_ativ =
     (if length (ano f) \<noteq> 4 \<or> \<not> str_isdigit (ano f) then Erro AnoInvalido
      else
      tenta (mes f) (\<lambda>mes_num.
      let ano_num = int_of_str (ano f) in
      tenta (float_campo (valor f)) (\<lambda>valor_num.
      tenta (monthrange_dias ano_num mes_num) (\<lambda>dias.
      (case salario_base (tipo_valor f) (tipo_calculo f) valor_num dias dia_ini of
         None \<Rightarrow> Cancelado
       | Some (salario, dias_calc) \<Rightarrow>
           (let pensao = calc_pensao f salario in
            (case tipo_contrato f of
               CLT \<Rightarrow> calcular_clt f ano_num mes_num valor_num dias salario dias_calc pensao
             | PJ \<Rightarrow> calcular_pj salario pensao
             | MEI \<Rightarrow> calcular_mei salario pensao tipo_ativ)))))))"

text \<open>
  Reading a result: the amount of a line of the pay slip and its totals, if a pay
  slip was produced (and has such a line).
\<close>

definition o_holerite :: "resultado \<Rightarrow> holerite option" where
  "o_holerite res = (case res of Holerite p \<Rightarrow> Some p | Cancelado \<Rightarrow> None | Erro e \<Rightarrow> None)"

definition desconto_de :: "rotulo \<Rightarrow> resultado \<Rightarrow> real option" where
  "desconto_de r res = do { p \<leftarrow> o_holerite res; map_of (descontos p) r }"

definition recebimento_de :: "rotulo \<Rightarrow> resultado \<Rightarrow> real option" where
  "recebimento_de r res = do { p \<leftarrow> o_holerite res; map_of (recebimentos p) r }"

definition total_desconto_de :: "resultado \<Rightarrow> real option" where
  "total_desconto_de res = map_option total_desconto (o_holerite res)"

definition liquido_de :: "resultado \<Rightarrow> real option" where
  "liquido_de res = map_option liquido (o_holerite res)"

text \<open>
  The form as \<open>limpar\<close> leaves it (every entry empty, the transport percentage 6),
  and an example: CLT, 100 a day, the whole month of June 2025 (30 days, of which
  21 are business days).
\<close>

definition form_inicial :: form where
  "form_inicial =
     \<lparr>tipo_contrato = CLT, tipo_valor = Diario, tipo_calculo = Mes,
      valor = Vazio, mes = None, ano = [],
      horas = Vazio, percentual = Vazio,
      paga_pensao = False, tipo_pensao = Percent, valor_pensao = Vazio,
      vr_fixo = False, valor_vr_fixo = Vazio, valor_vr = Vazio,
      va_fixo = False, valor_va_fixo = Vazio, valor_va = Vazio,
      vt_fixo = False, valor_vt_fixo = Vazio, vt_percentual = Numero 6,
      atraso_horas = Vazio, atraso_minutos = Vazio, faltas = Vazio\<rparr>"

definition form_exemplo :: form where
  "form_exemplo = form_inicial\<lparr>valor := Numero 100, mes := Some 6, ano := ''2025''\<rparr>"

text \<open>Variations of the example, one for each property below.\<close>

definition form_horas_extras_pensao :: form where
  "form_horas_extras_pensao =
     form_exemplo\<lparr>horas := Numero 10, percentual := Numero 50,
                   paga_pensao := True, valor_pensao := Numero 10\<rparr>"

definition form_data_vr :: form where
  "form_data_vr = form_exemplo\<lparr>tipo_calculo := Data, valor_vr := Numero 10\<rparr>"

definition form_horas_sem_percentual :: form where
  "form_horas_sem_percentual = form_exemplo\<lparr>horas := Numero 2\<rparr>"



definition form_mei :: form where
  "form_mei = form_exemplo\<lparr>tipo_contrato := MEI, tipo_valor := Total, valor := Numero 5000\<rparr>"

definition form_invalidos :: form where
  "form_invalidos =
     form_exemplo\<lparr>vt_fixo := True, valor_vt_fixo := Invalido,
                   vr_fixo := True, valor_vr_fixo := Invalido,
                   va_fixo := True, valor_va_fixo := Vazio,
                   paga_pensao := True, valor_pensao := Invalido\<rparr>"

subsection \<open>Properties of the bracket tables\<close>

text \<open>
  After the cap, the loop of \<open>calc_inss\<close> never selects the row of the ceiling, and
  the row of the first threshold has the rate of the fall-through case: the
  function has three pieces.
\<close>

lemma calc_inss_piecewise:
  "calc_inss s =
     (if min s 8157.41 > 4190.83 then min s 8157.41 * 0.12 - 106.59
      else if min s 8157.41 > 2793.88 then min s 8157.41 * 0.09 - 22.77
      else min s 8157.41 * 0.075)"
  unfolding calc_inss_def INSS_FAIXAS_def INSS_TETO_def Let_def
  by (auto simp: min_def)

lemma calc_inss_mono: "a \<le> b \<Longrightarrow> calc_inss a \<le> calc_inss b"
  unfolding calc_inss_piecewise by (auto simp: min_def split: if_splits)

lemma calc_inss_capped: "0 \<le> k \<Longrightarrow> calc_inss (8157.41 + k) = calc_inss 8157.41"
  unfolding calc_inss_piecewise by (simp add: min_def)

text \<open>
  Claim C3. The social-security contribution \<open>calc_inss\<close> is non-decreasing on the
  amounts between 0 and the ceiling 8157.41, and constant above the ceiling: the
  contribution of 8157.41 + k is that of 8157.41, for every k > 0.
\<close>

theorem calc_inss_monotone_and_capped:
  "(0 \<le> a \<and> a \<le> b \<and> b \<le> 8157.41 \<longrightarrow> calc_inss a \<le> calc_inss b)
   \<and> (0 < k \<longrightarrow> calc_inss 8157.41 = calc_inss (8157.41 + k))"
  using calc_inss_mono [of a b] calc_inss_capped [of k] by simp

theorem calc_inss_monotone_and_capped_witness:
  "(0::real) \<le> 1000 \<and> (1000::real) \<le> 3000 \<and> (3000::real) \<le> 8157.41
   \<and> calc_inss 1000 = 75 \<and> calc_inss 3000 = 247.23 \<and> calc_inss 1000 \<le> calc_inss 3000
   \<and> (0::real) < 500 \<and> calc_inss 8157.41 = 872.2992
   \<and> calc_inss 8157.41 = calc_inss (8157.41 + 500)"
  using calc_inss_monotone_and_capped [of 1000 3000 500]
  by (simp add: calc_inss_piecewise)

lemma calc_irrf_zero: "base \<le> 2428.80 \<Longrightarrow> calc_irrf base = 0"
  by (simp add: calc_irrf_def IRRF_TABELA_def le_faixa_def irrf_faixa_def)

text \<open>
  Above the last finite threshold the income tax is \<open>base * 0.275 - 908.73\<close>, which
  tends to 374.057 at the threshold, where the function itself is 374.063.
\<close>

lemma calc_irrf_above: "4664.68 < base \<Longrightarrow> calc_irrf base = base * 0.275 - 908.73"
  by (simp add: calc_irrf_def IRRF_TABELA_def le_faixa_def irrf_faixa_def)

lemma calc_irrf_at_last_threshold: "calc_irrf 4664.68 = 374.063"
  by (simp add: calc_irrf_def IRRF_TABELA_def le_faixa_def irrf_faixa_def)

text \<open>The gap between two neighbouring rows at each of the four thresholds.\<close>

lemma irrf_gaps:
  "irrf_faixa (IRRF_TABELA ! 0) 2428.80 - irrf_faixa (IRRF_TABELA ! 1) 2428.80 = 0"
  "irrf_faixa (IRRF_TABELA ! 1) 2826.65 - irrf_faixa (IRRF_TABELA ! 2) 2826.65 = 0.00125"
  "irrf_faixa (IRRF_TABELA ! 2) 3751.05 - irrf_faixa (IRRF_TABELA ! 3) 3751.05 = 0.00125"
  "irrf_faixa (IRRF_TABELA ! 3) 4664.68 - irrf_faixa (IRRF_TABELA ! 4) 4664.68 = 0.006"
  by (simp_all add: IRRF_TABELA_def irrf_faixa_def)

text \<open>
  Claim C9, as stated, fails. At the threshold 4664.68 the row that ends there
  gives 374.063 and the next row gives 374.057: they differ by 0.006, which is no
  rounding error of floating-point arithmetic (the deductions of the table are
  rounded to the cent).
\<close>

theorem calc_irrf_gap_counterexample:
  "irrf_faixa (IRRF_TABELA ! 3) 4664.68 = 374.063
   \<and> irrf_faixa (IRRF_TABELA ! 4) 4664.68 = 374.057
   \<and> \<not> \<bar>irrf_faixa (IRRF_TABELA ! 3) 4664.68 - irrf_faixa (IRRF_TABELA ! 4) 4664.68\<bar>
         \<le> 1 / 1000"
  by (simp add: IRRF_TABELA_def irrf_faixa_def)

text \<open>
  Claim C9, amended. The income tax \<open>calc_irrf\<close> is 0 for every base at or below the
  first threshold 2428.80, and at every threshold t of the table the tax of the
  row that ends at t and the tax of the next row differ by at most 0.006 (less
  than one cent).
\<close>

theorem calc_irrf_zero_and_gaps:
  "(base \<le> 2428.80 \<longrightarrow> calc_irrf base = 0)
   \<and> (\<forall>i<4. case fst (IRRF_TABELA ! i) of
          None \<Rightarrow> False
        | Some t \<Rightarrow>
            \<bar>irrf_faixa (IRRF_TABELA ! i) t - irrf_faixa (IRRF_TABELA ! Suc i) t\<bar> \<le> 0.006)"
proof -
  have "i < 4 \<longleftrightarrow> i = 0 \<or> i = 1 \<or> i = 2 \<or> i = 3" for i :: nat by auto
  then show ?thesis
    using calc_irrf_zero [of base]
    by (auto simp: IRRF_TABELA_def irrf_faixa_def)
qed

theorem calc_irrf_zero_and_gaps_witness:
  "(2000::real) \<le> 2428.80 \<and> calc_irrf 2000 = 0
   \<and> fst (IRRF_TABELA ! 3) = Some 4664.68
   \<and> \<bar>irrf_faixa (IRRF_TABELA ! 3) 4664.68 - irrf_faixa (IRRF_TABELA ! Suc 3) 4664.68\<bar>
       \<le> 0.006"
  using calc_irrf_zero_and_gaps [of 2000]
  by (simp add: IRRF_TABELA_def irrf_faixa_def)

subsection \<open>Evaluating and inverting \<open>calcular\<close>\<close>

text \<open>The definitions that evaluate \<open>calcular\<close> on a concrete form.\<close>

lemmas avalia =
  calcular_def calcular_clt_def calcular_pj_def calcular_mei_def tenta_def
  clt_horas_extras_def clt_atraso_faltas_def clt_vales_def clt_holerite_def
  str_isdigit_def int_of_str_def float_campo_def float_campo_ou_def float_campo_try_def
  monthrange_dias_def mdays_def isleap_def salario_base_def calc_pensao_def py_div_def
  val_hora_def calc_h_extra_def calc_vt_def calc_vale_def se_positivo_def
  calc_inss_def INSS_FAIXAS_def INSS_TETO_def
  calc_irrf_def IRRF_TABELA_def le_faixa_def irrf_faixa_def
  count_uteis_def date_ordinal_def days_before_year_def days_before_month_def weekday_of_def
  count_uteis_loop.simps MEI_INSS_def MEI_ICMS_def MEI_ISS_def Let_def
  o_holerite_def desconto_de_def recebimento_de_def total_desconto_de_def liquido_de_def
  form_inicial_def form_exemplo_def

lemma tenta_Holerite_iff:
  "tenta x k = Holerite p \<longleftrightarrow> (\<exists>v. x = Some v \<and> k v = Holerite p)"
  by (cases x) (simp_all add: tenta_def)

lemma o_holerite_Some_iff: "o_holerite res = Some p \<longleftrightarrow> res = Holerite p"
  by (cases res) (auto simp: o_holerite_def)

lemma recebimento_de_Some_D:
  "recebimento_de r res = Some v \<Longrightarrow> \<exists>p. res = Holerite p \<and> map_of (recebimentos p) r = Some v"
  by (auto simp: recebimento_de_def bind_eq_Some_conv o_holerite_Some_iff)

lemma leitura_Holerite:
  "desconto_de r (Holerite p) = map_of (descontos p) r"
  "recebimento_de r (Holerite p) = map_of (recebimentos p) r"
  "total_desconto_de (Holerite p) = Some (total_desconto p)"
  "liquido_de (Holerite p) = Some (liquido p)"
  by (simp_all add: desconto_de_def recebimento_de_def total_desconto_de_def liquido_de_def
        o_holerite_def)

lemma nao_Mes: "t \<noteq> Mes \<longleftrightarrow> t = Data"
  by (cases t) simp_all

lemma monthrange_dias_Some:
  "1 \<le> m \<Longrightarrow> m \<le> 12 \<Longrightarrow> \<exists>dias. monthrange_dias y m = Some dias"
  by (simp add: monthrange_dias_def)

text \<open>What a pay slip in the result says about the steps before it.\<close>

lemma calcular_Holerite_D:
  assumes "calcular f d a = Holerite p"
  shows "\<exists>mes_num valor_num dias salario dias_calc.
           length (ano f) = 4 \<and> str_isdigit (ano f)
         \<and> mes f = Some mes_num \<and> float_campo (valor f) = Some valor_num
         \<and> monthrange_dias (int_of_str (ano f)) mes_num = Some dias
         \<and> salario_base (tipo_valor f) (tipo_calculo f) valor_num dias d
             = Some (salario, dias_calc)
         \<and> (case tipo_contrato f of
               CLT \<Rightarrow> calcular_clt f (int_of_str (ano f)) mes_num valor_num dias salario
                        dias_calc (calc_pensao f salario)
             | PJ \<Rightarrow> calcular_pj salario (calc_pensao f salario)
             | MEI \<Rightarrow> calcular_mei salario (calc_pensao f salario) a) = Holerite p"
  using assms
  by (auto simp: calcular_def tenta_Holerite_iff Let_def
        split: if_splits option.splits prod.splits)

text \<open>With a well-formed year, month and value, the calculation reaches the salary.\<close>

lemma calcular_valido:
  assumes "length (ano f) = 4" and "str_isdigit (ano f)" and "mes f = Some m"
    and "monthrange_dias (int_of_str (ano f)) m = Some dias" and "valor f = Numero v"
  shows "calcular f d a =
           (case salario_base (tipo_valor f) (tipo_calculo f) v dias d of
              None \<Rightarrow> Cancelado
            | Some (salario, dias_calc) \<Rightarrow>
                (case tipo_contrato f of
                   CLT \<Rightarrow> calcular_clt f (int_of_str (ano f)) m v dias salario dias_calc
                            (calc_pensao f salario)
                 | PJ \<Rightarrow> calcular_pj salario (calc_pensao f salario)
                 | MEI \<Rightarrow> calcular_mei salario (calc_pensao f salario) a))"
  using assms
  by (simp add: calcular_def tenta_def float_campo_def Let_def
        split: option.splits prod.splits)

lemma calcular_clt_Holerite_D:
  assumes "calcular_clt f an mn vn dias salario dc pensao = Holerite p"
  shows "\<exists>v_h val_h_extras valor_atraso valor_falta vt desc_vr desc_va.
           clt_horas_extras f vn salario dc = Inr (v_h, val_h_extras)
         \<and> clt_atraso_faltas f vn salario dias v_h = Some (valor_atraso, valor_falta)
         \<and> clt_vales f an mn (salario + val_h_extras) = Some (vt, desc_vr, desc_va)
         \<and> p = clt_holerite salario val_h_extras pensao vt desc_vr desc_va
                 valor_atraso valor_falta"
  using assms
  by (auto simp: calcular_clt_def tenta_Holerite_iff split: sum.splits prod.splits)

lemma calcular_CLT_Holerite_D:
  assumes "calcular f d a = Holerite p" and "tipo_contrato f = CLT"
  shows "\<exists>salario val_h_extras vt uteis desc_vr desc_va valor_atraso valor_falta.
           calc_vt f (salario + val_h_extras) = Some vt
         \<and> calc_vale (vr_fixo f) (valor_vr_fixo f) (valor_vr f) uteis = Some desc_vr
         \<and> calc_vale (va_fixo f) (valor_va_fixo f) (valor_va f) uteis = Some desc_va
         \<and> p = clt_holerite salario val_h_extras (calc_pensao f salario) vt desc_vr desc_va
                 valor_atraso valor_falta"
proof -
  from calcular_Holerite_D [OF assms(1)] assms(2)
  obtain mes_num valor_num dias salario dias_calc where
    "calcular_clt f (int_of_str (ano f)) mes_num valor_num dias salario dias_calc
       (calc_pensao f salario) = Holerite p"
    by auto
  from calcular_clt_Holerite_D [OF this]
  obtain val_h_extras valor_atraso valor_falta vt desc_vr desc_va where
    v: "clt_vales f (int_of_str (ano f)) mes_num (salario + val_h_extras)
          = Some (vt, desc_vr, desc_va)"
    and p: "p = clt_holerite salario val_h_extras (calc_pensao f salario) vt desc_vr desc_va
                 valor_atraso valor_falta"
    by blast
  from v obtain uteis where
    "calc_vt f (salario + val_h_extras) = Some vt"
    "calc_vale (vr_fixo f) (valor_vr_fixo f) (valor_vr f) uteis = Some desc_vr"
    "calc_vale (va_fixo f) (valor_va_fixo f) (valor_va f) uteis = Some desc_va"
    by (auto simp: clt_vales_def bind_eq_Some_conv)
  with p show ?thesis by blast
qed


lemma calcular_MEI_Holerite_D:
  assumes "calcular f d a = Holerite p" and "tipo_contrato f = MEI"
  shows "\<exists>salario. calcular_mei salario (calc_pensao f salario) a = Holerite p"
  using calcular_Holerite_D [OF assms(1)] assms(2) by auto

text \<open>The lines of the three kinds of pay slip.\<close>

lemma descontos_clt_holerite:
  "map_of (descontos (clt_holerite s ve pens vt vr va atr fal)) PensaoAlimenticia
     = (if 0 < pens then Some pens else None)"
  "map_of (descontos (clt_holerite s ve pens vt vr va atr fal)) ValeTransporte = Some vt"
  "map_of (descontos (clt_holerite s ve pens vt vr va atr fal)) ValeRefeicao
     = (if 0 < vr then Some vr else None)"
  "map_of (descontos (clt_holerite s ve pens vt vr va atr fal)) ValeAlimentacao
     = (if 0 < va then Some va else None)"
  by (simp_all add: clt_holerite_def Let_def se_positivo_def)

lemma recebimentos_clt_holerite:
  "map_of (recebimentos (clt_holerite s ve pens vt vr va atr fal)) SalarioBruto = Some (s + ve)"
  "map_of (recebimentos (clt_holerite s ve pens vt vr va atr fal)) SalarioBase = Some s"
  "map_of (recebimentos (clt_holerite s ve pens vt vr va atr fal)) HorasExtras
     = (if 0 < ve then Some ve else None)"
  by (simp_all add: clt_holerite_def Let_def se_positivo_def)



subsection \<open>The alimony (claim C1)\<close>

text \<open>
  Claim C1, as stated, fails. With 10 hours of overtime at 50 per cent on 100 a
  day in June 2025 the gross pay is 3187.50 and the alimony of 10 per cent is
  300, which is 10 per cent of the base salary 3000 and not of the gross pay.
\<close>

theorem alimony_on_gross_counterexample:
  "tipo_contrato form_horas_extras_pensao = CLT
   \<and> paga_pensao form_horas_extras_pensao
   \<and> tipo_pensao form_horas_extras_pensao = Percent
   \<and> valor_pensao form_horas_extras_pensao = Numero 10
   \<and> recebimento_de HorasExtras (calcular form_horas_extras_pensao None None) = Some 187.5
   \<and> recebimento_de SalarioBruto (calcular form_horas_extras_pensao None None) = Some 3187.5
   \<and> desconto_de PensaoAlimenticia (calcular form_horas_extras_pensao None None) = Some 300
   \<and> (300::real) \<noteq> 10 / 100 * 3187.5"
  by (simp add: form_horas_extras_pensao_def avalia)

text \<open>
  Claim C1, amended. For every CLT calculation with the alimony elected as a
  percentage \<open>pc\<close>, the alimony line of the pay slip is \<open>pc / 100\<close> times the base
  salary (the line is left out when that amount is not positive); the gross pay
  is the base salary plus the overtime value, so with overtime the alimony is
  computed on less than the gross pay.
\<close>

theorem alimony_percent_of_base_salary:
  assumes "tipo_contrato f = CLT" and "paga_pensao f" and "tipo_pensao f = Percent"
    and "valor_pensao f = Numero pc"
    and "recebimento_de SalarioBase (calcular f d a) = Some salario"
  shows "desconto_de PensaoAlimenticia (calcular f d a)
           = (if 0 < salario * pc / 100 then Some (salario * pc / 100) else None)
       \<and> (\<forall>v. recebimento_de HorasExtras (calcular f d a) = Some v
              \<longrightarrow> recebimento_de SalarioBruto (calcular f d a) = Some (salario + v))"
proof -
  from recebimento_de_Some_D [OF assms(5)] obtain p where
    r: "calcular f d a = Holerite p"
    and s: "map_of (recebimentos p) SalarioBase = Some salario"
    by blast
  from calcular_CLT_Holerite_D [OF r assms(1)]
  obtain salario' val_h_extras vt desc_vr desc_va valor_atraso valor_falta where
    p: "p = clt_holerite salario' val_h_extras (calc_pensao f salario') vt desc_vr desc_va
                 valor_atraso valor_falta" by blast
  from s p have "salario' = salario" by (simp add: recebimentos_clt_holerite)
  moreover have "calc_pensao f salario = salario * pc / 100"
    using assms(2-4) by (simp add: calc_pensao_def float_campo_try_def float_campo_def)
  ultimately show ?thesis
    using p by (simp add: r leitura_Holerite descontos_clt_holerite recebimentos_clt_holerite)
qed

theorem alimony_percent_of_base_salary_witness:
  "tipo_contrato form_horas_extras_pensao = CLT
   \<and> paga_pensao form_horas_extras_pensao
   \<and> tipo_pensao form_horas_extras_pensao = Percent
   \<and> valor_pensao form_horas_extras_pensao = Numero 10
   \<and> recebimento_de SalarioBase (calcular form_horas_extras_pensao None None) = Some 3000
   \<and> desconto_de PensaoAlimenticia (calcular form_horas_extras_pensao None None)
       = Some (3000 * 10 / 100)
   \<and> recebimento_de HorasExtras (calcular form_horas_extras_pensao None None) = Some 187.5
   \<and> recebimento_de SalarioBruto (calcular form_horas_extras_pensao None None)
       = Some (3000 + 187.5)"
  using alimony_percent_of_base_salary [of form_horas_extras_pensao 10 None None 3000]
  by (simp add: form_horas_extras_pensao_def avalia)

subsection \<open>A daily value from a specific day (claim C2)\<close>

text \<open>
  Claim C2 on the code: for a daily value of 100 from day 16 of June 2025 the
  salary is \<open>100 * (30 - 16 + 1)\<close>, as the claim says, but the meal voucher of 10 a
  day is deducted for the 21 business days of the whole month (42) and not for
  the 11 business days from day 16 on (22): \<open>calcular\<close> calls \<open>count_uteis\<close> without
  the first day.
\<close>

theorem voucher_days_not_shifted:
  "tipo_contrato form_data_vr = CLT \<and> tipo_valor form_data_vr = Diario
   \<and> tipo_calculo form_data_vr = Data \<and> \<not> vr_fixo form_data_vr
   \<and> valor form_data_vr = Numero 100 \<and> valor_vr form_data_vr = Numero 10
   \<and> monthrange_dias 2025 6 = Some 30
   \<and> recebimento_de SalarioBase (calcular form_data_vr (Some 16) None)
       = Some (100 * (30 - 16 + 1))
   \<and> count_uteis 2025 6 1 = Some 21
   \<and> count_uteis 2025 6 16 = Some 11
   \<and> desconto_de ValeRefeicao (calcular form_data_vr (Some 16) None) = Some (10 * 21 * 0.2)
   \<and> desconto_de ValeRefeicao (calcular form_data_vr (Some 16) None) \<noteq> Some (10 * 11 * 0.2)"
  by (simp add: form_data_vr_def avalia)

theorem voucher_days_not_shifted_witness:
  "desconto_de ValeRefeicao (calcular form_data_vr (Some 16) None) = Some 42
   \<and> count_uteis 2025 6 16 = Some 11"
  using voucher_days_not_shifted by simp

subsection \<open>Overtime hours without a percentage (claim C4)\<close>

lemma clt_horas_extras_sem_percentual:
  assumes "float_campo_ou (horas f) 0 = Some h" and "0 < h"
    and "float_campo_ou (percentual f) 0 = Some 0"
  shows "clt_horas_extras f vn salario dc = Inl PercentualHorasExtras"
  using assms by (simp add: clt_horas_extras_def)

text \<open>
  Claim C4, as stated, fails. For a daily value from a specific day the first
  day is asked for before the overtime is looked at: when that dialogue is
  cancelled, \<open>calcular\<close> returns without any error, also with 2 hours of overtime
  and no percentage.
\<close>

theorem overtime_percent_counterexample:
  "tipo_contrato (form_horas_sem_percentual\<lparr>tipo_calculo := Data\<rparr>) = CLT
   \<and> float_campo_ou (horas (form_horas_sem_percentual\<lparr>tipo_calculo := Data\<rparr>)) 0 = Some 2
   \<and> float_campo_ou (percentual (form_horas_sem_percentual\<lparr>tipo_calculo := Data\<rparr>)) 0
       = Some 0
   \<and> calcular (form_horas_sem_percentual\<lparr>tipo_calculo := Data\<rparr>) None None = Cancelado
   \<and> calcular (form_horas_sem_percentual\<lparr>tipo_calculo := Data\<rparr>) None None
       \<noteq> Erro PercentualHorasExtras"
  by (simp add: form_horas_sem_percentual_def avalia)

text \<open>
  Claim C4, amended. For every CLT input with overtime hours above 0 and an
  overtime percentage of 0 (or none), \<open>calcular\<close> never produces a pay slip; with a
  well-formed year, month and value it ends in the error "Informe o percentual
  das horas extras", unless the value is daily from a specific day and the
  dialogue for the first day was cancelled, in which case it returns silently.
\<close>

theorem overtime_percent_required:
  assumes "tipo_contrato f = CLT"
    and "float_campo_ou (horas f) 0 = Some h" and "0 < h"
    and "float_campo_ou (percentual f) 0 = Some 0"
  shows "(\<forall>p. calcular f d a \<noteq> Holerite p)
       \<and> (length (ano f) = 4 \<and> str_isdigit (ano f) \<and> mes f = Some m \<and> 1 \<le> m \<and> m \<le> 12
            \<and> valor f = Numero v
          \<longrightarrow> calcular f d a =
               (if tipo_valor f = Diario \<and> tipo_calculo f = Data \<and> d = None then Cancelado
                else Erro PercentualHorasExtras))"
proof (rule conjI; (rule allI)?; (rule impI)?)
  fix p
  show "calcular f d a \<noteq> Holerite p"
  proof
    assume "calcular f d a = Holerite p"
    from calcular_Holerite_D [OF this] assms(1)
    obtain mes_num valor_num dias salario dias_calc where
      "calcular_clt f (int_of_str (ano f)) mes_num valor_num dias salario dias_calc
         (calc_pensao f salario) = Holerite p"
      by auto
    from calcular_clt_Holerite_D [OF this]
    obtain v_h val_h_extras where
      "clt_horas_extras f valor_num salario dias_calc = Inr (v_h, val_h_extras)"
      by blast
    with clt_horas_extras_sem_percentual [OF assms(2-4)] show False by simp
  qed
next
  assume "length (ano f) = 4 \<and> str_isdigit (ano f) \<and> mes f = Some m \<and> 1 \<le> m \<and> m \<le> 12
            \<and> valor f = Numero v"
  then have v: "length (ano f) = 4" "str_isdigit (ano f)" "mes f = Some m" "1 \<le> m" "m \<le> 12"
    "valor f = Numero v" by simp_all
  from monthrange_dias_Some [OF v(4,5)] obtain dias where
    dias: "monthrange_dias (int_of_str (ano f)) m = Some dias" by blast
  have c: "calcular f d a =
             (case salario_base (tipo_valor f) (tipo_calculo f) v dias d of
                None \<Rightarrow> Cancelado
              | Some (salario, dias_calc) \<Rightarrow>
                  calcular_clt f (int_of_str (ano f)) m v dias salario dias_calc
                    (calc_pensao f salario))"
    by (simp add: calcular_valido [OF v(1-3) dias v(6)] assms(1)
          split: option.splits prod.splits)
  show "calcular f d a =
               (if tipo_valor f = Diario \<and> tipo_calculo f = Data \<and> d = None then Cancelado
                else Erro PercentualHorasExtras)"
    unfolding c
    by (auto simp: salario_base_def calcular_clt_def Let_def nao_Mes
          clt_horas_extras_sem_percentual [OF assms(2-4)] split: option.splits)
qed

theorem overtime_percent_required_witness:
  "tipo_contrato form_horas_sem_percentual = CLT
   \<and> float_campo_ou (horas form_horas_sem_percentual) 0 = Some 2 \<and> (0::real) < 2
   \<and> float_campo_ou (percentual form_horas_sem_percentual) 0 = Some 0
   \<and> length (ano form_horas_sem_percentual) = 4 \<and> str_isdigit (ano form_horas_sem_percentual)
   \<and> mes form_horas_sem_percentual = Some 6 \<and> valor form_horas_sem_percentual = Numero 100
   \<and> calcular form_horas_sem_percentual None None = Erro PercentualHorasExtras"
  using overtime_percent_required [of form_horas_sem_percentual 2 None None 6 100]
  by (simp add: form_horas_sem_percentual_def form_exemplo_def form_inicial_def
        float_campo_ou_def str_isdigit_def)

subsection \<open>The cancelled MEI dialogue (claim C5)\<close>

text \<open>
  Claim C5. For every MEI input, when the activity dialogue is cancelled,
  \<open>calcular\<close> produces no pay slip, and with a well-formed year, month and value it
  returns silently (\<open>Cancelado\<close>): nothing is shown.
\<close>

theorem mei_cancelled:
  assumes "tipo_contrato f = MEI"
  shows "(\<forall>p. calcular f d None \<noteq> Holerite p)
       \<and> (length (ano f) = 4 \<and> str_isdigit (ano f) \<and> mes f = Some m \<and> 1 \<le> m \<and> m \<le> 12
            \<and> valor f = Numero v
          \<longrightarrow> calcular f d None = Cancelado)"
proof (rule conjI; (rule allI)?; (rule impI)?)
  fix p
  show "calcular f d None \<noteq> Holerite p"
  proof
    assume "calcular f d None = Holerite p"
    from calcular_MEI_Holerite_D [OF this assms]
    show False by (simp add: calcular_mei_def)
  qed
next
  assume "length (ano f) = 4 \<and> str_isdigit (ano f) \<and> mes f = Some m \<and> 1 \<le> m \<and> m \<le> 12
            \<and> valor f = Numero v"
  then have v: "length (ano f) = 4" "str_isdigit (ano f)" "mes f = Some m" "1 \<le> m" "m \<le> 12"
    "valor f = Numero v" by simp_all
  from monthrange_dias_Some [OF v(4,5)] obtain dias where
    dias: "monthrange_dias (int_of_str (ano f)) m = Some dias" by blast
  show "calcular f d None = Cancelado"
    by (simp add: calcular_valido [OF v(1-3) dias v(6)] assms calcular_mei_def
          split: option.splits)
qed

theorem mei_cancelled_witness:
  "tipo_contrato form_mei = MEI
   \<and> length (ano form_mei) = 4 \<and> str_isdigit (ano form_mei)
   \<and> mes form_mei = Some 6 \<and> valor form_mei = Numero 5000
   \<and> calcular form_mei None None = Cancelado"
  using mei_cancelled [of form_mei None 6 5000]
  by (simp add: form_mei_def form_exemplo_def form_inicial_def str_isdigit_def)

subsection \<open>The transport voucher (claim C6)\<close>



subsection \<open>The contract PJ (claim C7)\<close>



subsection \<open>The contract MEI (claim C8)\<close>



subsection \<open>Amounts that cannot be read (claim C10)\<close>

lemma float_campo_try_None: "float_campo c = None \<Longrightarrow> float_campo_try c = 0"
  by (simp add: float_campo_try_def)

lemma float_campo_try_zero: "float_campo_try (Numero 0) = 0"
  by (simp add: float_campo_try_def float_campo_def)

text \<open>\<open>calcular\<close> reads the form only through these entries and blocks.\<close>

lemma calcular_eq:
  assumes "tipo_contrato g = tipo_contrato f" and "tipo_valor g = tipo_valor f"
    and "tipo_calculo g = tipo_calculo f"
    and "ano g = ano f" and "mes g = mes f" and "valor g = valor f"
    and "\<And>s. calc_pensao g s = calc_pensao f s"
    and "\<And>vn s dc. clt_horas_extras g vn s dc = clt_horas_extras f vn s dc"
    and "\<And>vn s dias v_h. clt_atraso_faltas g vn s dias v_h = clt_atraso_faltas f vn s dias v_h"
    and "\<And>an mn sb. clt_vales g an mn sb = clt_vales f an mn sb"
  shows "calcular g d a = calcular f d a"
  unfolding calcular_def calcular_clt_def assms ..

lemma linhas_fixas_clt:
  assumes "calcular g d a = Holerite p" and "tipo_contrato g = CLT"
  shows "vt_fixo g \<longrightarrow>
           map_of (descontos p) ValeTransporte = Some (float_campo_try (valor_vt_fixo g))"
    and "vr_fixo g \<longrightarrow>
           map_of (descontos p) ValeRefeicao
             = (if 0 < float_campo_try (valor_vr_fixo g)
                then Some (float_campo_try (valor_vr_fixo g)) else None)"
    and "va_fixo g \<longrightarrow>
           map_of (descontos p) ValeAlimentacao
             = (if 0 < float_campo_try (valor_va_fixo g)
                then Some (float_campo_try (valor_va_fixo g)) else None)"
    and "paga_pensao g \<and> float_campo_try (valor_pensao g) = 0 \<longrightarrow>
           map_of (descontos p) PensaoAlimenticia = None"
proof -
  from calcular_CLT_Holerite_D [OF assms]
  obtain salario val_h_extras vt uteis desc_vr desc_va valor_atraso valor_falta where
    vt: "calc_vt g (salario + val_h_extras) = Some vt"
    and vr: "calc_vale (vr_fixo g) (valor_vr_fixo g) (valor_vr g) uteis = Some desc_vr"
    and va: "calc_vale (va_fixo g) (valor_va_fixo g) (valor_va g) uteis = Some desc_va"
    and p: "p = clt_holerite salario val_h_extras (calc_pensao g salario) vt desc_vr desc_va
                 valor_atraso valor_falta"
    by blast
  show "vt_fixo g \<longrightarrow>
           map_of (descontos p) ValeTransporte = Some (float_campo_try (valor_vt_fixo g))"
    using vt by (auto simp: p descontos_clt_holerite calc_vt_def)
  show "vr_fixo g \<longrightarrow>
           map_of (descontos p) ValeRefeicao
             = (if 0 < float_campo_try (valor_vr_fixo g)
                then Some (float_campo_try (valor_vr_fixo g)) else None)"
    using vr by (auto simp: p descontos_clt_holerite calc_vale_def)
  show "va_fixo g \<longrightarrow>
           map_of (descontos p) ValeAlimentacao
             = (if 0 < float_campo_try (valor_va_fixo g)
                then Some (float_campo_try (valor_va_fixo g)) else None)"
    using va by (auto simp: p descontos_clt_holerite calc_vale_def)
  show "paga_pensao g \<and> float_campo_try (valor_pensao g) = 0 \<longrightarrow>
           map_of (descontos p) PensaoAlimenticia = None"
    by (auto simp: p descontos_clt_holerite calc_pensao_def)
qed

text \<open>
  Claim C10. In the CLT calculation, when a voucher has a fixed deduction, or the
  alimony is elected, and the entry of the amount cannot be read as a number
  (\<open>c\<close> is empty or invalid), \<open>calcular\<close> behaves exactly as if the amount were 0:
  no error is raised for it, the result is the one for the amount 0, and in a
  pay slip the transport line is 0 and the meal, food and alimony lines are
  left out.
\<close>

theorem unparseable_amount_counts_as_zero:
  assumes "float_campo c = None" and "tipo_contrato f = CLT"
  shows "calcular (f\<lparr>vt_fixo := True, valor_vt_fixo := c\<rparr>) d a
           = calcular (f\<lparr>vt_fixo := True, valor_vt_fixo := Numero 0\<rparr>) d a
       \<and> (\<forall>p. calcular (f\<lparr>vt_fixo := True, valor_vt_fixo := c\<rparr>) d a = Holerite p
              \<longrightarrow> map_of (descontos p) ValeTransporte = Some 0)
       \<and> calcular (f\<lparr>vr_fixo := True, valor_vr_fixo := c\<rparr>) d a
           = calcular (f\<lparr>vr_fixo := True, valor_vr_fixo := Numero 0\<rparr>) d a
       \<and> (\<forall>p. calcular (f\<lparr>vr_fixo := True, valor_vr_fixo := c\<rparr>) d a = Holerite p
              \<longrightarrow> map_of (descontos p) ValeRefeicao = None)
       \<and> calcular (f\<lparr>va_fixo := True, valor_va_fixo := c\<rparr>) d a
           = calcular (f\<lparr>va_fixo := True, valor_va_fixo := Numero 0\<rparr>) d a
       \<and> (\<forall>p. calcular (f\<lparr>va_fixo := True, valor_va_fixo := c\<rparr>) d a = Holerite p
              \<longrightarrow> map_of (descontos p) ValeAlimentacao = None)
       \<and> calcular (f\<lparr>paga_pensao := True, valor_pensao := c\<rparr>) d a
           = calcular (f\<lparr>paga_pensao := True, valor_pensao := Numero 0\<rparr>) d a
       \<and> (\<forall>p. calcular (f\<lparr>paga_pensao := True, valor_pensao := c\<rparr>) d a = Holerite p
              \<longrightarrow> map_of (descontos p) PensaoAlimenticia = None)"
proof -
  note zero = float_campo_try_None [OF assms(1)]
  note blocos = clt_horas_extras_def clt_atraso_faltas_def clt_vales_def calc_vt_def
    calc_vale_def calc_pensao_def zero float_campo_try_zero
  have "calcular (f\<lparr>vt_fixo := True, valor_vt_fixo := c\<rparr>) d a
           = calcular (f\<lparr>vt_fixo := True, valor_vt_fixo := Numero 0\<rparr>) d a"
    by (rule calcular_eq) (simp_all add: blocos cong: option.case_cong)
  moreover have "calcular (f\<lparr>vr_fixo := True, valor_vr_fixo := c\<rparr>) d a
           = calcular (f\<lparr>vr_fixo := True, valor_vr_fixo := Numero 0\<rparr>) d a"
    by (rule calcular_eq) (simp_all add: blocos cong: option.case_cong)
  moreover have "calcular (f\<lparr>va_fixo := True, valor_va_fixo := c\<rparr>) d a
           = calcular (f\<lparr>va_fixo := True, valor_va_fixo := Numero 0\<rparr>) d a"
    by (rule calcular_eq) (simp_all add: blocos cong: option.case_cong)
  moreover have "calcular (f\<lparr>paga_pensao := True, valor_pensao := c\<rparr>) d a
           = calcular (f\<lparr>paga_pensao := True, valor_pensao := Numero 0\<rparr>) d a"
    by (rule calcular_eq) (simp_all add: blocos cong: option.case_cong)
  moreover have "map_of (descontos p) ValeTransporte = Some 0"
    if "calcular (f\<lparr>vt_fixo := True, valor_vt_fixo := c\<rparr>) d a = Holerite p" for p
    using linhas_fixas_clt(1) [OF that] assms(2) by (simp add: zero)
  moreover have "map_of (descontos p) ValeRefeicao = None"
    if "calcular (f\<lparr>vr_fixo := True, valor_vr_fixo := c\<rparr>) d a = Holerite p" for p
    using linhas_fixas_clt(2) [OF that] assms(2) by (simp add: zero)
  moreover have "map_of (descontos p) ValeAlimentacao = None"
    if "calcular (f\<lparr>va_fixo := True, valor_va_fixo := c\<rparr>) d a = Holerite p" for p
    using linhas_fixas_clt(3) [OF that] assms(2) by (simp add: zero)
  moreover have "map_of (descontos p) PensaoAlimenticia = None"
    if "calcular (f\<lparr>paga_pensao := True, valor_pensao := c\<rparr>) d a = Holerite p" for p
    using linhas_fixas_clt(4) [OF that] assms(2) by (simp add: zero)
  ultimately show ?thesis by blast
qed

theorem unparseable_amount_counts_as_zero_witness:
  "float_campo Invalido = None \<and> tipo_contrato form_exemplo = CLT
   \<and> calcular (form_exemplo\<lparr>vt_fixo := True, valor_vt_fixo := Invalido\<rparr>) None None
       = calcular (form_exemplo\<lparr>vt_fixo := True, valor_vt_fixo := Numero 0\<rparr>) None None
   \<and> desconto_de ValeTransporte
       (calcular (form_exemplo\<lparr>vt_fixo := True, valor_vt_fixo := Invalido\<rparr>) None None)
       = Some 0
   \<and> calcular form_invalidos None None =
       Holerite
         \<lparr>recebimentos = [(SalarioBruto, 3000), (SalarioBase, 3000)],
          descontos = [(INSS, 247.23), (IRRF, 24.29775), (ValeTransporte, 0)],
          total_recebimento = 3000,
          total_desconto = 271.52775,
          liquido = 2728.47225\<rparr>"
  using unparseable_amount_counts_as_zero [of Invalido form_exemplo None None]
  by (simp add: form_invalidos_def avalia)

end
